theory Spec2Isabelle
  imports Main "HOL-Library.Word"
begin

unbundle bit_operations_syntax

section \<open>Machine types and errors\<close>

text \<open>
  The library is instantiated at its defaults: node handles of the compact allocator are
  \<open>uint32_t\<close> (\<open>IndexType\<close>), weights are \<open>uint32_t\<close> (\<open>NVType\<close>) and
  \<open>size_t\<close> has 64 bits.  Every \<open>throw\<close> of the source is a value of \<open>error\<close>;
  an access outside a vector (undefined behaviour in C++) is \<open>OutOfBounds\<close>, the read of a
  variable that was never assigned is \<open>Uninitialized\<close>, and a loop that used up its fuel is
  \<open>Diverges\<close>.
\<close>

type_synonym idx = "32 word"

datatype error =
    Capacity
  | ParentTooLarge
  | Arithmetic
  | Inconsistent
  | InvalidRoot
  | SizeZero
  | OutOfBounds
  | Uninitialized
  | Diverges

definition bindE :: "error + 'a \<Rightarrow> ('a \<Rightarrow> error + 'b) \<Rightarrow> error + 'b" where
  "bindE m f = (case m of Inl e \<Rightarrow> Inl e | Inr x \<Rightarrow> f x)"

section \<open>The realloc-backed vector (vector\_realloc.h)\<close>






section \<open>The compact node allocator (orbtree\_node.h, NodeAllocatorCompact)\<close>

text \<open>
  A node stores its key and value, the index of its parent with the red flag in the top
  bit, and the indices of its children.  The tree class inherits from the allocator, so one
  record holds the fields of both.  \<open>nodes\<close> and \<open>nvarray\<close> are the two vectors; only their
  contents are modelled here (their capacity never changes what the allocator computes), and
  the host allocator is taken to succeed.  The counters \<open>n_del\<close> and \<open>size1\<close> are
  \<open>size_t\<close> in the source and count slots of \<open>nodes\<close>, so they are natural numbers here.
\<close>

record ('k, 'v) node =
  kv :: "'k \<times> 'v"
  parent :: idx
  left :: idx
  right :: idx

record ('k, 'v) orbtree =
  nodes :: "('k, 'v) node list"
  nvarray :: "32 word list"
  nv_per_node :: nat
  n_del :: nat
  deleted_nodes_head :: idx
  root :: idx
  nil :: idx
  size1 :: nat

definition redbit :: idx where
  "redbit = push_bit 31 1"

definition max_nodes :: idx where
  "max_nodes = redbit - 1"

definition deleted_indicator :: idx where
  "deleted_indicator = (max_nodes OR redbit)"

definition Invalid :: idx where
  "Invalid = max_nodes"

definition Node :: "'k \<times> 'v \<Rightarrow> ('k, 'v) node" where
  "Node e = \<lparr>kv = e, parent = Invalid, left = Invalid, right = Invalid\<rparr>"

definition is_red :: "('k, 'v) node \<Rightarrow> bool" where
  "is_red n = (parent n AND redbit \<noteq> 0)"

definition is_black :: "('k, 'v) node \<Rightarrow> bool" where
  "is_black n = (\<not> is_red n)"

definition set_red :: "('k, 'v) node \<Rightarrow> ('k, 'v) node" where
  "set_red n = n\<lparr>parent := parent n OR redbit\<rparr>"

definition set_black :: "('k, 'v) node \<Rightarrow> ('k, 'v) node" where
  "set_black n = n\<lparr>parent := parent n AND NOT redbit\<rparr>"

definition get_parent :: "('k, 'v) node \<Rightarrow> idx" where
  "get_parent n = parent n AND NOT redbit"

definition get_left :: "('k, 'v) node \<Rightarrow> idx" where
  "get_left n = left n"

definition get_right :: "('k, 'v) node \<Rightarrow> idx" where
  "get_right n = right n"

definition set_parent :: "idx \<Rightarrow> ('k, 'v) node \<Rightarrow> error + ('k, 'v) node" where
  "set_parent p n =
     (if p > max_nodes then Inl ParentTooLarge
      else Inr (n\<lparr>parent := p OR (parent n AND redbit)\<rparr>))"

definition set_left :: "idx \<Rightarrow> ('k, 'v) node \<Rightarrow> ('k, 'v) node" where
  "set_left x n = n\<lparr>left := x\<rparr>"

definition set_right :: "idx \<Rightarrow> ('k, 'v) node \<Rightarrow> ('k, 'v) node" where
  "set_right x n = n\<lparr>right := x\<rparr>"

definition set_deleted :: "('k, 'v) node \<Rightarrow> ('k, 'v) node" where
  "set_deleted n = n\<lparr>parent := deleted_indicator\<rparr>"

definition is_deleted :: "('k, 'v) node \<Rightarrow> bool" where
  "is_deleted n = (parent n = deleted_indicator)"

text \<open>\<open>nodes[x]\<close>: reading and writing a slot; outside the vector it is undefined behaviour.\<close>

definition get_node :: "('k, 'v) orbtree \<Rightarrow> idx \<Rightarrow> error + ('k, 'v) node" where
  "get_node t x =
     (if unat x < length (nodes t) then Inr (nodes t ! unat x) else Inl OutOfBounds)"

definition put_node :: "('k, 'v) orbtree \<Rightarrow> idx \<Rightarrow> ('k, 'v) node \<Rightarrow> error + ('k, 'v) orbtree" where
  "put_node t x n =
     (if unat x < length (nodes t) then Inr (t\<lparr>nodes := (nodes t)[unat x := n]\<rparr>)
      else Inl OutOfBounds)"

definition upd_node ::
  "('k, 'v) orbtree \<Rightarrow> idx \<Rightarrow> (('k, 'v) node \<Rightarrow> ('k, 'v) node) \<Rightarrow> error + ('k, 'v) orbtree" where
  "upd_node t x g = bindE (get_node t x) (\<lambda>n. put_node t x (g n))"

definition updE_node ::
  "('k, 'v) orbtree \<Rightarrow> idx \<Rightarrow> (('k, 'v) node \<Rightarrow> error + ('k, 'v) node) \<Rightarrow> error + ('k, 'v) orbtree" where
  "updE_node t x g = bindE (get_node t x) (\<lambda>n. bindE (g n) (\<lambda>n1. put_node t x n1))"

text \<open>\<open>vector::resize(count, x)\<close> on the contents.\<close>

definition resize :: "'a list \<Rightarrow> nat \<Rightarrow> 'a \<Rightarrow> 'a list" where
  "resize xs count x = take count xs @ replicate (count - length xs) x"

definition try_get_node :: "('k, 'v) orbtree \<Rightarrow> error + (idx option \<times> ('k, 'v) orbtree)" where
  "try_get_node t =
     (if deleted_nodes_head t \<noteq> Invalid then
        if n_del t = 0 then Inl Inconsistent
        else
          let t1 = t\<lparr>n_del := n_del t - 1\<rparr>;
              n = deleted_nodes_head t1
          in bindE (updE_node t1 n (set_parent Invalid)) (\<lambda>t2.
             bindE (get_node t2 (deleted_nodes_head t2)) (\<lambda>h.
             let t3 = t2\<lparr>deleted_nodes_head := get_left h\<rparr>
             in bindE (if deleted_nodes_head t3 \<noteq> Invalid
                       then upd_node t3 (deleted_nodes_head t3) (set_right Invalid)
                       else Inr t3) (\<lambda>t4.
                Inr (Some n, t4))))
      else Inr (None, t))"

definition new_node :: "('k, 'v) orbtree \<Rightarrow> 'k \<times> 'v \<Rightarrow> error + (idx \<times> ('k, 'v) orbtree)" where
  "new_node t e =
     bindE (try_get_node t) (\<lambda>(r, t1).
       case r of
         Some n \<Rightarrow> bindE (put_node t1 n (Node e)) (\<lambda>t2. Inr (n, t2))
       | None \<Rightarrow>
           let n = (of_nat (length (nodes t1)) :: idx)
           in if n = max_nodes then Inl Capacity
              else Inr (n, t1\<lparr>nodes := nodes t1 @ [Node e],
                              nvarray := resize (nvarray t1) (unat (n + 1) * nv_per_node t1) 0\<rparr>))"

definition free_node :: "('k, 'v) orbtree \<Rightarrow> idx \<Rightarrow> error + ('k, 'v) orbtree" where
  "free_node t n =
     bindE (upd_node t n set_deleted) (\<lambda>t1.
     bindE (upd_node t1 n (set_right Invalid)) (\<lambda>t2.
     bindE (upd_node t2 n (set_left (deleted_nodes_head t2))) (\<lambda>t3.
     bindE (if deleted_nodes_head t3 \<noteq> Invalid
            then upd_node t3 (deleted_nodes_head t3) (set_right n) else Inr t3) (\<lambda>t4.
     Inr (t4\<lparr>deleted_nodes_head := n, n_del := n_del t4 + 1\<rparr>)))))"

definition clear_tree :: "'k \<times> 'v \<Rightarrow> ('k, 'v) orbtree \<Rightarrow> error + ('k, 'v) orbtree" where
  "clear_tree e0 t =
     (let t1 = t\<lparr>nodes := resize (nodes t) 2 (Node e0)\<rparr>;
          t2 = t1\<lparr>nvarray := resize (nvarray t1) 2 0\<rparr>;
          t3 = t2\<lparr>root := 0, nil := 1, deleted_nodes_head := Invalid, n_del := 0\<rparr>
      in bindE (put_node t3 (root t3) (Node e0)) (\<lambda>t4.
         put_node t4 (nil t4) (Node e0)))"

text \<open>\<open>get_node_sum\<close> and \<open>set_node_sum\<close>: the \<open>nv_per_node\<close> cells of node \<open>n\<close> in \<open>nvarray\<close>.\<close>

definition get_node_sum :: "('k, 'v) orbtree \<Rightarrow> idx \<Rightarrow> error + 32 word list" where
  "get_node_sum t n =
     (let base = unat n * nv_per_node t
      in if base + nv_per_node t \<le> length (nvarray t)
         then Inr (take (nv_per_node t) (drop base (nvarray t)))
         else Inl OutOfBounds)"

definition set_node_sum :: "('k, 'v) orbtree \<Rightarrow> idx \<Rightarrow> 32 word list \<Rightarrow> error + ('k, 'v) orbtree" where
  "set_node_sum t n s =
     (let base = unat n * nv_per_node t
      in if base + nv_per_node t \<le> length (nvarray t) \<and> length s = nv_per_node t
         then Inr (t\<lparr>nvarray := take base (nvarray t) @ s @ drop (base + nv_per_node t) (nvarray t)\<rparr>)
         else Inl OutOfBounds)"

definition move_nv :: "('k, 'v) orbtree \<Rightarrow> idx \<Rightarrow> idx \<Rightarrow> error + ('k, 'v) orbtree" where
  "move_nv t x y = bindE (get_node_sum t y) (\<lambda>s. set_node_sum t x s)"

definition move_node :: "('k, 'v) orbtree \<Rightarrow> idx \<Rightarrow> idx \<Rightarrow> error + ('k, 'v) orbtree" where
  "move_node t x y =
     bindE (get_node t y) (\<lambda>ny.
     bindE (put_node t x ny) (\<lambda>t1.
     bindE (move_nv t1 x y) (\<lambda>t2.
     if y = root t2 \<or> y = nil t2 then Inl Inconsistent
     else
       bindE (get_node t2 x) (\<lambda>nx.
       bindE (if get_parent nx \<noteq> Invalid \<and> get_parent nx \<noteq> nil t2 then
                bindE (get_node t2 (get_parent nx)) (\<lambda>np.
                if get_left np = y then upd_node t2 (get_parent nx) (set_left x)
                else if get_right np = y then upd_node t2 (get_parent nx) (set_right x)
                else Inl Inconsistent)
              else Inl Inconsistent) (\<lambda>t3.
       bindE (get_node t3 x) (\<lambda>nx3.
       bindE (if get_left nx3 \<noteq> Invalid \<and> get_left nx3 \<noteq> nil t3 then
                bindE (get_node t3 (get_left nx3)) (\<lambda>nl.
                if get_parent nl \<noteq> y then Inl Inconsistent
                else updE_node t3 (get_left nx3) (set_parent x))
              else Inr t3) (\<lambda>t4.
       bindE (get_node t4 x) (\<lambda>nx4.
       if get_right nx4 \<noteq> Invalid \<and> get_right nx4 \<noteq> nil t4 then
         bindE (get_node t4 (get_right nx4)) (\<lambda>nr.
         if get_parent nr \<noteq> y then Inl Inconsistent
         else updE_node t4 (get_right nx4) (set_parent x))
       else Inr t4))))))))"

text \<open>
  One round of the loop of \<open>shrink_to_fit\<close> up to \<open>nodes.pop_back()\<close>; \<open>sz\<close> is the
  index of the last slot.
\<close>

definition shrink_step :: "('k, 'v) orbtree \<Rightarrow> idx \<Rightarrow> error + ('k, 'v) orbtree" where
  "shrink_step t sz =
     bindE (get_node t sz) (\<lambda>lastn.
     if is_deleted lastn then
       let l = get_left lastn; r = get_right lastn
       in bindE (if l \<noteq> Invalid then upd_node t l (set_right r) else Inr t) (\<lambda>t1.
          bindE (if r \<noteq> Invalid then upd_node t1 r (set_left l) else Inr t1) (\<lambda>t2.
          if deleted_nodes_head t2 = sz then
            let t3 = t2\<lparr>deleted_nodes_head := l\<rparr>
            in if deleted_nodes_head t3 = Invalid \<and> n_del t3 > 1
               then Inl Inconsistent else Inr t3
          else Inr t2))
     else
       let n = deleted_nodes_head t
       in if n = sz then Inl Inconsistent
          else
            bindE (get_node t (deleted_nodes_head t)) (\<lambda>h.
            let t1 = t\<lparr>deleted_nodes_head := get_left h\<rparr>
            in bindE (upd_node t1 (deleted_nodes_head t1) (set_right Invalid)) (\<lambda>t2.
               move_node t2 n sz)))"

text \<open>
  The loop of \<open>shrink_to_fit\<close>.  Every round that does not throw drops the last slot of
  \<open>nodes\<close>, so \<open>length nodes + 1\<close> rounds of fuel are never used up.
\<close>

fun shrink_loop :: "nat \<Rightarrow> ('k, 'v) orbtree \<Rightarrow> error + ('k, 'v) orbtree" where
  "shrink_loop 0 t = Inl Diverges"
| "shrink_loop (Suc fuel) t =
     (if deleted_nodes_head t = Invalid then Inr t
      else
        let size0 = (of_nat (length (nodes t)) :: idx)
        in if size0 = 0 then Inl Inconsistent
           else
             let sz = size0 - 1
             in bindE (shrink_step t sz) (\<lambda>t5.
                let t6 = t5\<lparr>nodes := butlast (nodes t5),
                            nvarray := resize (nvarray t5) (unat sz * nv_per_node t5) 0\<rparr>
                in if n_del t6 = 0 then Inl Inconsistent
                   else shrink_loop fuel (t6\<lparr>n_del := n_del t6 - 1\<rparr>)))"

definition shrink_to_fit :: "('k, 'v) orbtree \<Rightarrow> error + ('k, 'v) orbtree" where
  "shrink_to_fit t = shrink_loop (length (nodes t) + 1) t"

text \<open>The constructor: the member initialisers, then the two sentinels.\<close>

definition alloc_empty :: "nat \<Rightarrow> ('k, 'v) orbtree" where
  "alloc_empty nr =
     \<lparr>nodes = [], nvarray = [], nv_per_node = nr, n_del = 0,
      deleted_nodes_head = Invalid, root = Invalid, nil = Invalid, size1 = 0\<rparr>"

definition alloc_init :: "nat \<Rightarrow> 'k \<times> 'v \<Rightarrow> error + ('k, 'v) orbtree" where
  "alloc_init nr e0 =
     bindE (new_node (alloc_empty nr) e0) (\<lambda>(r, t1).
     bindE (new_node (t1\<lparr>root := r\<rparr>) e0) (\<lambda>(n, t2).
     Inr (t2\<lparr>nil := n\<rparr>)))"

section \<open>Checked weight arithmetic (orbtree\_base::NVAdd, NVSubtract)\<close>

text \<open>
  The branch for integral \<open>NVType\<close>.  \<open>NVAdd\<close> and \<open>NVSubtract\<close> are the instances at an
  unsigned type (\<open>min = 0\<close>, \<open>max\<close> all ones, comparisons unsigned); \<open>NVAdd_signed\<close> and
  \<open>NVSubtract_signed\<close> are the same text at a signed type (two's complement, comparisons
  signed).  The arrays have \<open>get_nr()\<close> cells each.
\<close>

fun NVAdd :: "'a::len word list \<Rightarrow> 'a word list \<Rightarrow> error + 'a word list" where
  "NVAdd (x # xs) (y # ys) =
     (if y > 0 \<and> (- 1) - y < x then Inl Arithmetic
      else if \<not> y > 0 \<and> 0 - y > x then Inl Arithmetic
      else bindE (NVAdd xs ys) (\<lambda>r. Inr ((x + y) # r)))"
| "NVAdd [] [] = Inr []"
| "NVAdd [] (y # ys) = Inl OutOfBounds"
| "NVAdd (x # xs) [] = Inl OutOfBounds"

fun NVSubtract :: "'a::len word list \<Rightarrow> 'a word list \<Rightarrow> error + 'a word list" where
  "NVSubtract (x # xs) (y # ys) =
     (if y > 0 \<and> 0 + y > x then Inl Arithmetic
      else if \<not> y > 0 \<and> (- 1) + y < x then Inl Arithmetic
      else bindE (NVSubtract xs ys) (\<lambda>r. Inr ((x - y) # r)))"
| "NVSubtract [] [] = Inr []"
| "NVSubtract [] (y # ys) = Inl OutOfBounds"
| "NVSubtract (x # xs) [] = Inl OutOfBounds"

definition smax :: "'a::len word" where
  "smax = word_of_int (2 ^ (LENGTH('a) - 1) - 1)"

definition smin :: "'a::len word" where
  "smin = word_of_int (- (2 ^ (LENGTH('a) - 1)))"

fun NVAdd_signed :: "'a::len word list \<Rightarrow> 'a word list \<Rightarrow> error + 'a word list" where
  "NVAdd_signed (x # xs) (y # ys) =
     (if word_sless 0 y \<and> word_sless (smax - y) x then Inl Arithmetic
      else if \<not> word_sless 0 y \<and> word_sless x (smin - y) then Inl Arithmetic
      else bindE (NVAdd_signed xs ys) (\<lambda>r. Inr ((x + y) # r)))"
| "NVAdd_signed [] [] = Inr []"
| "NVAdd_signed [] (y # ys) = Inl OutOfBounds"
| "NVAdd_signed (x # xs) [] = Inl OutOfBounds"

fun NVSubtract_signed :: "'a::len word list \<Rightarrow> 'a word list \<Rightarrow> error + 'a word list" where
  "NVSubtract_signed (x # xs) (y # ys) =
     (if word_sless 0 y \<and> word_sless x (smin + y) then Inl Arithmetic
      else if \<not> word_sless 0 y \<and> word_sless (smax + y) x then Inl Arithmetic
      else bindE (NVSubtract_signed xs ys) (\<lambda>r. Inr ((x - y) # r)))"
| "NVSubtract_signed [] [] = Inr []"
| "NVSubtract_signed [] (y # ys) = Inl OutOfBounds"
| "NVSubtract_signed (x # xs) [] = Inl OutOfBounds"

section \<open>The tree (orbtree\_base)\<close>

text \<open>
  The template parameters of the tree: the comparison \<open>Compare\<close>, the weight function
  \<open>NVFunc\<close> (\<open>nvf e i\<close> is the component \<open>i\<close> that \<open>f(e, res)\<close> writes to \<open>res[i]\<close>),
  the flag \<open>multi\<close>, and the value-initialised \<open>KeyValue()\<close> that the sentinels hold.
\<close>

record ('k, 'v) params =
  cmp :: "'k \<Rightarrow> 'k \<Rightarrow> bool"
  nvf :: "'k \<times> 'v \<Rightarrow> nat \<Rightarrow> 32 word"
  multi :: bool
  kv_default :: "'k \<times> 'v"

definition left_of :: "('k, 'v) orbtree \<Rightarrow> idx \<Rightarrow> error + idx" where
  "left_of t n = bindE (get_node t n) (\<lambda>x. Inr (get_left x))"

definition right_of :: "('k, 'v) orbtree \<Rightarrow> idx \<Rightarrow> error + idx" where
  "right_of t n = bindE (get_node t n) (\<lambda>x. Inr (get_right x))"

definition parent_of :: "('k, 'v) orbtree \<Rightarrow> idx \<Rightarrow> error + idx" where
  "parent_of t n = bindE (get_node t n) (\<lambda>x. Inr (get_parent x))"

definition red_at :: "('k, 'v) orbtree \<Rightarrow> idx \<Rightarrow> error + bool" where
  "red_at t n = bindE (get_node t n) (\<lambda>x. Inr (is_red x))"

definition get_node_key :: "('k, 'v) orbtree \<Rightarrow> idx \<Rightarrow> error + 'k" where
  "get_node_key t n = bindE (get_node t n) (\<lambda>x. Inr (fst (kv x)))"

definition get_node_grvalue ::
  "('k, 'v) params \<Rightarrow> ('k, 'v) orbtree \<Rightarrow> idx \<Rightarrow> error + 32 word list" where
  "get_node_grvalue P t n =
     bindE (get_node t n) (\<lambda>x. Inr (map (nvf P (kv x)) [0..<nv_per_node t]))"

definition create_sentinels :: "('k, 'v) orbtree \<Rightarrow> error + ('k, 'v) orbtree" where
  "create_sentinels t =
     bindE (updE_node t (root t) (set_parent (nil t))) (\<lambda>t1.
     bindE (upd_node t1 (root t1) (set_left (nil t1))) (\<lambda>t2.
     bindE (upd_node t2 (root t2) (set_right (nil t2))) (\<lambda>t3.
     bindE (upd_node t3 (root t3) set_black) (\<lambda>t4.
     bindE (updE_node t4 (nil t4) (set_parent (nil t4))) (\<lambda>t5.
     bindE (upd_node t5 (nil t5) (set_left (nil t5))) (\<lambda>t6.
     bindE (upd_node t6 (nil t6) (set_right (nil t6))) (\<lambda>t7.
     bindE (upd_node t7 (nil t7) set_black) (\<lambda>t8.
     Inr (t8\<lparr>size1 := 0\<rparr>)))))))))"

definition orbtree_init :: "('k, 'v) params \<Rightarrow> nat \<Rightarrow> error + ('k, 'v) orbtree" where
  "orbtree_init P nr = bindE (alloc_init nr (kv_default P)) create_sentinels"

definition clear :: "('k, 'v) params \<Rightarrow> ('k, 'v) orbtree \<Rightarrow> error + ('k, 'v) orbtree" where
  "clear P t = bindE (clear_tree (kv_default P) t) create_sentinels"

text \<open>
  The loops of the tree walk along child or parent links, so on a store that holds a
  tree they make fewer rounds than \<open>nodes\<close> has slots; \<open>fuel\<close> is that bound.
\<close>

definition fuel :: "('k, 'v) orbtree \<Rightarrow> nat" where
  "fuel t = length (nodes t)"

fun lower_bound_loop ::
  "('k, 'v) params \<Rightarrow> ('k, 'v) orbtree \<Rightarrow> 'k \<Rightarrow> nat \<Rightarrow> idx \<Rightarrow> idx \<Rightarrow> error + idx" where
  "lower_bound_loop P t key 0 n lst = Inl Diverges"
| "lower_bound_loop P t key (Suc k) n lst =
     bindE (get_node t n) (\<lambda>x.
       if cmp P (fst (kv x)) key then
         (if get_right x = nil t then Inr lst
          else lower_bound_loop P t key k (get_right x) lst)
       else
         (if get_left x = nil t then Inr n
          else lower_bound_loop P t key k (get_left x) n))"

definition lower_bound :: "('k, 'v) params \<Rightarrow> ('k, 'v) orbtree \<Rightarrow> 'k \<Rightarrow> error + idx" where
  "lower_bound P t key =
     (if root t = Invalid then Inr (nil t)
      else bindE (right_of t (root t)) (\<lambda>n.
           if n = Invalid \<or> n = nil t then Inr (nil t)
           else lower_bound_loop P t key (fuel t) n (nil t)))"

fun go_left :: "('k, 'v) orbtree \<Rightarrow> nat \<Rightarrow> idx \<Rightarrow> error + idx" where
  "go_left t 0 n = Inl Diverges"
| "go_left t (Suc k) n =
     bindE (left_of t n) (\<lambda>l. if l \<noteq> nil t then go_left t k l else Inr n)"

fun go_right :: "('k, 'v) orbtree \<Rightarrow> nat \<Rightarrow> idx \<Rightarrow> error + idx" where
  "go_right t 0 n = Inl Diverges"
| "go_right t (Suc k) n =
     bindE (right_of t n) (\<lambda>r. if r \<noteq> nil t then go_right t k r else Inr n)"

definition first :: "('k, 'v) orbtree \<Rightarrow> error + idx" where
  "first t =
     (if root t = Invalid then Inr (nil t)
      else bindE (right_of t (root t)) (\<lambda>n.
           if n = Invalid \<or> n = nil t then Inr (nil t) else go_left t (fuel t) n))"

definition last_node :: "('k, 'v) orbtree \<Rightarrow> error + idx" where
  "last_node t =
     (if root t = Invalid then Inr (nil t)
      else bindE (right_of t (root t)) (\<lambda>n.
           if n = Invalid \<or> n = nil t then Inr (nil t) else go_right t (fuel t) n))"

fun next_up :: "('k, 'v) orbtree \<Rightarrow> nat \<Rightarrow> idx \<Rightarrow> error + idx" where
  "next_up t 0 n = Inl Diverges"
| "next_up t (Suc k) n =
     bindE (parent_of t n) (\<lambda>p.
       if p = root t then Inr (nil t)
       else bindE (left_of t p) (\<lambda>l. if l = n then Inr p else next_up t k p))"

definition next_node :: "('k, 'v) orbtree \<Rightarrow> idx \<Rightarrow> error + idx" where
  "next_node t n =
     (if n = nil t then Inr n
      else bindE (right_of t n) (\<lambda>r.
           if r \<noteq> nil t then go_left t (fuel t) r else next_up t (fuel t) n))"

fun previous_up :: "('k, 'v) orbtree \<Rightarrow> nat \<Rightarrow> idx \<Rightarrow> error + idx" where
  "previous_up t 0 n = Inl Diverges"
| "previous_up t (Suc k) n =
     bindE (parent_of t n) (\<lambda>p.
       if p = root t then Inr (nil t)
       else bindE (right_of t p) (\<lambda>r. if r = n then Inr p else previous_up t k p))"

definition previous :: "('k, 'v) orbtree \<Rightarrow> idx \<Rightarrow> error + idx" where
  "previous t n =
     (if n = nil t then last_node t
      else bindE (left_of t n) (\<lambda>l.
           if l \<noteq> nil t then go_right t (fuel t) l else previous_up t (fuel t) n))"

definition update_sum ::
  "('k, 'v) params \<Rightarrow> ('k, 'v) orbtree \<Rightarrow> idx \<Rightarrow> error + ('k, 'v) orbtree" where
  "update_sum P t n =
     bindE (get_node_grvalue P t n) (\<lambda>s0.
     bindE (left_of t n) (\<lambda>l.
     bindE (if l \<noteq> nil t then bindE (get_node_sum t l) (\<lambda>tmp. NVAdd s0 tmp) else Inr s0) (\<lambda>s1.
     bindE (right_of t n) (\<lambda>r.
     bindE (if r \<noteq> nil t then bindE (get_node_sum t r) (\<lambda>tmp. NVAdd s1 tmp) else Inr s1) (\<lambda>s2.
     set_node_sum t n s2)))))"

fun update_sum_r ::
  "('k, 'v) params \<Rightarrow> nat \<Rightarrow> ('k, 'v) orbtree \<Rightarrow> idx \<Rightarrow> error + ('k, 'v) orbtree" where
  "update_sum_r P 0 t n = Inl Diverges"
| "update_sum_r P (Suc k) t n =
     (if n = root t then Inr t
      else bindE (update_sum P t n) (\<lambda>t1.
           bindE (parent_of t1 n) (\<lambda>p. update_sum_r P k t1 p)))"

definition update_value ::
  "('k, 'v) params \<Rightarrow> ('k, 'v) orbtree \<Rightarrow> idx \<Rightarrow> 'v \<Rightarrow> error + ('k, 'v) orbtree" where
  "update_value P t n v =
     bindE (upd_node t n (\<lambda>x. x\<lparr>kv := (fst (kv x), v)\<rparr>)) (\<lambda>t1.
     update_sum_r P (fuel t1) t1 n)"

definition rotate_left ::
  "('k, 'v) params \<Rightarrow> ('k, 'v) orbtree \<Rightarrow> idx \<Rightarrow> error + ('k, 'v) orbtree" where
  "rotate_left P t x =
     bindE (right_of t x) (\<lambda>y.
     bindE (left_of t y) (\<lambda>yl.
     bindE (upd_node t x (set_right yl)) (\<lambda>t1.
     bindE (right_of t1 x) (\<lambda>xr.
     bindE (if xr \<noteq> nil t1 then updE_node t1 xr (set_parent x) else Inr t1) (\<lambda>t2.
     bindE (parent_of t2 x) (\<lambda>xp.
     bindE (updE_node t2 y (set_parent xp)) (\<lambda>t3.
     bindE (parent_of t3 x) (\<lambda>xp3.
     bindE (right_of t3 xp3) (\<lambda>pr.
     bindE (if x = pr then upd_node t3 xp3 (set_right y) else upd_node t3 xp3 (set_left y)) (\<lambda>t4.
     bindE (upd_node t4 y (set_left x)) (\<lambda>t5.
     bindE (updE_node t5 x (set_parent y)) (\<lambda>t6.
     bindE (update_sum P t6 x) (\<lambda>t7.
     update_sum P t7 y)))))))))))))"

definition rotate_right ::
  "('k, 'v) params \<Rightarrow> ('k, 'v) orbtree \<Rightarrow> idx \<Rightarrow> error + ('k, 'v) orbtree" where
  "rotate_right P t x =
     bindE (left_of t x) (\<lambda>y.
     bindE (right_of t y) (\<lambda>yr.
     bindE (upd_node t x (set_left yr)) (\<lambda>t1.
     bindE (left_of t1 x) (\<lambda>xl.
     bindE (if xl \<noteq> nil t1 then updE_node t1 xl (set_parent x) else Inr t1) (\<lambda>t2.
     bindE (parent_of t2 x) (\<lambda>xp.
     bindE (updE_node t2 y (set_parent xp)) (\<lambda>t3.
     bindE (parent_of t3 x) (\<lambda>xp3.
     bindE (right_of t3 xp3) (\<lambda>pr.
     bindE (if x = pr then upd_node t3 xp3 (set_right y) else upd_node t3 xp3 (set_left y)) (\<lambda>t4.
     bindE (upd_node t4 y (set_right x)) (\<lambda>t5.
     bindE (updE_node t5 x (set_parent y)) (\<lambda>t6.
     bindE (update_sum P t6 x) (\<lambda>t7.
     update_sum P t7 y)))))))))))))"

definition rotate_parent ::
  "('k, 'v) params \<Rightarrow> ('k, 'v) orbtree \<Rightarrow> idx \<Rightarrow> error + ('k, 'v) orbtree" where
  "rotate_parent P t n =
     bindE (parent_of t n) (\<lambda>p.
     bindE (left_of t p) (\<lambda>l.
     if n = l then rotate_right P t p else rotate_left P t p))"

subsection \<open>Insertion\<close>

text \<open>
  \<open>insert_search\<close> returns its \<open>bool\<close> together with the two reference parameters
  \<open>n\<close> and \<open>insert_left\<close>; a parameter that the call leaves unassigned is \<open>None\<close>.
\<close>

fun insert_search_loop ::
  "('k, 'v) params \<Rightarrow> ('k, 'v) orbtree \<Rightarrow> 'k \<Rightarrow> nat \<Rightarrow> idx \<Rightarrow>
     error + (bool \<times> idx option \<times> bool option)" where
  "insert_search_loop P t k 0 n = Inl Diverges"
| "insert_search_loop P t k (Suc fu) n =
     bindE (get_node t n) (\<lambda>x.
       if cmp P k (fst (kv x)) then
         (if get_left x = nil t then Inr (True, Some n, Some True)
          else insert_search_loop P t k fu (get_left x))
       else
         (if \<not> multi P \<and> \<not> cmp P (fst (kv x)) k then Inr (False, Some n, None)
          else if get_right x = nil t then Inr (True, Some n, Some False)
          else insert_search_loop P t k fu (get_right x)))"

definition insert_search ::
  "('k, 'v) params \<Rightarrow> ('k, 'v) orbtree \<Rightarrow> 'k \<Rightarrow> error + (bool \<times> idx option \<times> bool option)" where
  "insert_search P t k =
     (let n = root t
      in if n = Invalid then Inl InvalidRoot
         else bindE (right_of t n) (\<lambda>r.
              if r = nil t then Inr (True, Some n, Some False)
              else insert_search_loop P t k (fuel t) r))"

definition get_sibling_handle :: "('k, 'v) orbtree \<Rightarrow> idx \<Rightarrow> error + idx" where
  "get_sibling_handle t n =
     bindE (parent_of t n) (\<lambda>p.
     bindE (get_node t p) (\<lambda>pn.
     if n = get_left pn then Inr (get_right pn) else Inr (get_left pn)))"

definition is_left_side :: "('k, 'v) orbtree \<Rightarrow> idx \<Rightarrow> error + bool" where
  "is_left_side t n =
     bindE (parent_of t n) (\<lambda>p. bindE (left_of t p) (\<lambda>l. Inr (l = n)))"

fun add_up ::
  "nat \<Rightarrow> ('k, 'v) orbtree \<Rightarrow> 32 word list \<Rightarrow> idx \<Rightarrow> error + ('k, 'v) orbtree" where
  "add_up 0 t sum_add n2 = Inl Diverges"
| "add_up (Suc fu) t sum_add n2 =
     (if n2 = root t then Inr t
      else bindE (get_node_sum t n2) (\<lambda>tmp.
           bindE (NVAdd tmp sum_add) (\<lambda>tmp1.
           bindE (set_node_sum t n2 tmp1) (\<lambda>t1.
           bindE (parent_of t1 n2) (\<lambda>p. add_up fu t1 sum_add p)))))"

fun insert_fix ::
  "('k, 'v) params \<Rightarrow> nat \<Rightarrow> ('k, 'v) orbtree \<Rightarrow> idx \<Rightarrow> idx \<Rightarrow> error + ('k, 'v) orbtree" where
  "insert_fix P 0 t n n1 = Inl Diverges"
| "insert_fix P (Suc fu) t n n1 =
     (if n = root t then Inr t
      else
        bindE (get_node t n) (\<lambda>x.
        if is_black x then Inr t
        else if get_parent x = root t then upd_node t n set_black
        else
          bindE (get_sibling_handle t n) (\<lambda>s.
          bindE (red_at t s) (\<lambda>sred.
          if sred then
            bindE (get_sibling_handle t n) (\<lambda>s1.
            bindE (upd_node t s1 set_black) (\<lambda>t1.
            bindE (upd_node t1 n set_black) (\<lambda>t2.
            bindE (parent_of t2 n) (\<lambda>p.
            bindE (upd_node t2 p set_red) (\<lambda>t3.
            bindE (parent_of t3 n) (\<lambda>n1a.
            bindE (parent_of t3 n1a) (\<lambda>na.
            insert_fix P fu t3 na n1a)))))))
          else
            bindE (is_left_side t n1) (\<lambda>a.
            bindE (is_left_side t n) (\<lambda>b.
            bindE (if a \<noteq> b then bindE (rotate_parent P t n1) (\<lambda>t1. Inr (t1, n1, n))
                   else Inr (t, n, n1)) (\<lambda>(t2, nb, n1b).
            bindE (upd_node t2 nb set_black) (\<lambda>t3.
            bindE (parent_of t3 nb) (\<lambda>p.
            bindE (upd_node t3 p set_red) (\<lambda>t4.
            rotate_parent P t4 nb))))))))))"

definition insert_helper ::
  "('k, 'v) params \<Rightarrow> ('k, 'v) orbtree \<Rightarrow> idx \<Rightarrow> idx \<Rightarrow> bool \<Rightarrow> error + ('k, 'v) orbtree" where
  "insert_helper P t n n1 insert_left =
     bindE (if insert_left then upd_node t n (set_left n1) else upd_node t n (set_right n1)) (\<lambda>t1.
     bindE (updE_node t1 n1 (set_parent n)) (\<lambda>t2.
     bindE (upd_node t2 n1 (set_left (nil t2))) (\<lambda>t3.
     bindE (upd_node t3 n1 (set_right (nil t3))) (\<lambda>t4.
     bindE (upd_node t4 n1 set_red) (\<lambda>t5.
     bindE (get_node_grvalue P t5 n1) (\<lambda>sum_add.
     bindE (set_node_sum t5 n1 sum_add) (\<lambda>t6.
     bindE (add_up (fuel t6) t6 sum_add n) (\<lambda>t7.
     insert_fix P (fuel t7) t7 n n1))))))))"

definition insert_value ::
  "('k, 'v) params \<Rightarrow> ('k, 'v) orbtree \<Rightarrow> 'k \<times> 'v \<Rightarrow> error + ((idx \<times> bool) \<times> ('k, 'v) orbtree)" where
  "insert_value P t e =
     bindE (insert_search P t (fst e)) (\<lambda>(found, n, il).
     if \<not> found then
       (case n of None \<Rightarrow> Inl Uninitialized | Some nh \<Rightarrow> Inr ((nh, False), t))
     else
       bindE (new_node t e) (\<lambda>(n1, t1).
       case (n, il) of
         (Some nh, Some b) \<Rightarrow>
           bindE (insert_helper P t1 nh n1 b) (\<lambda>t2.
           Inr ((n1, True), t2\<lparr>size1 := size1 t2 + 1\<rparr>))
       | _ \<Rightarrow> Inl Uninitialized))"

text \<open>
  \<open>insert_search_hint\<close>.  Its first branch returns the handle \<open>p\<close> where a \<open>bool\<close> is
  expected (so \<open>p != 0\<close>, with \<open>n\<close> and \<open>insert_left\<close> unassigned), and the fall-back
  there is written \<open>insert_search(k,n,insert_left).first\<close>, which is read as the result of
  \<open>insert_search\<close>.  Two \<open>std::runtime_error\<close> objects are built without \<open>throw\<close>, so
  nothing happens there.
\<close>

definition insert_search_hint ::
  "('k, 'v) params \<Rightarrow> ('k, 'v) orbtree \<Rightarrow> idx \<Rightarrow> 'k \<Rightarrow>
     error + (bool \<times> idx option \<times> bool option)" where
  "insert_search_hint P t hint k =
     bindE (get_node_key t hint) (\<lambda>kh.
     if cmp P k kh then
       bindE (previous t hint) (\<lambda>p.
       bindE (get_node_key t p) (\<lambda>kp.
       if \<not> cmp P k kp then
         (if \<not> multi P \<and> \<not> cmp P kp k then Inr (p \<noteq> 0, None, None)
          else bindE (left_of t hint) (\<lambda>hl.
               if hl = nil t then Inr (True, Some hint, Some True)
               else bindE (right_of t p) (\<lambda>pr.
                    if pr = nil t then Inr (True, Some p, Some False)
                    else Inl Inconsistent)))
       else insert_search P t k))
     else if \<not> cmp P kh k then
       (if \<not> multi P then Inr (False, Some hint, None)
        else bindE (left_of t hint) (\<lambda>hl.
             if hl = nil t then Inr (True, Some hint, Some True)
             else bindE (previous t hint) (\<lambda>p.
                  bindE (right_of t p) (\<lambda>pr.
                  Inr (True, Some p, Some False)))))
     else
       bindE (lower_bound P t k) (\<lambda>n.
       if n \<noteq> nil t then
         bindE (left_of t n) (\<lambda>nl.
         if nl = nil t then Inr (True, Some n, Some True)
         else bindE (previous t n) (\<lambda>p.
              bindE (right_of t p) (\<lambda>pr.
              Inr (True, Some p, Some False))))
       else bindE (last_node t) (\<lambda>l. Inr (True, Some l, Some False))))"

definition insert_hint ::
  "('k, 'v) params \<Rightarrow> ('k, 'v) orbtree \<Rightarrow> idx \<Rightarrow> 'k \<times> 'v \<Rightarrow> error + (idx \<times> ('k, 'v) orbtree)" where
  "insert_hint P t hint e =
     bindE (insert_search_hint P t hint (fst e)) (\<lambda>(found, n, il).
     if \<not> found then
       (case n of None \<Rightarrow> Inl Uninitialized | Some nh \<Rightarrow> Inr (nh, t))
     else
       bindE (new_node t e) (\<lambda>(n1, t1).
       case (n, il) of
         (Some nh, Some b) \<Rightarrow>
           bindE (insert_helper P t1 nh n1 b) (\<lambda>t2.
           Inr (n1, t2\<lparr>size1 := size1 t2 + 1\<rparr>))
       | _ \<Rightarrow> Inl Uninitialized))"

subsection \<open>Deletion\<close>

fun subtract_up ::
  "nat \<Rightarrow> ('k, 'v) orbtree \<Rightarrow> 32 word list \<Rightarrow> idx \<Rightarrow> error + ('k, 'v) orbtree" where
  "subtract_up 0 t x2 p2 = Inl Diverges"
| "subtract_up (Suc fu) t x2 p2 =
     (if p2 = root t then Inr t
      else bindE (get_node_sum t p2) (\<lambda>y.
           bindE (NVSubtract y x2) (\<lambda>y1.
           bindE (set_node_sum t p2 y1) (\<lambda>t1.
           bindE (parent_of t1 p2) (\<lambda>p. subtract_up fu t1 x2 p)))))"

definition black_at :: "('k, 'v) orbtree \<Rightarrow> idx \<Rightarrow> error + bool" where
  "black_at t n = bindE (get_node t n) (\<lambda>x. Inr (is_black x))"

text \<open>The \<open>while(true)\<close> of \<open>erase\<close> that restores the black height; \<open>ch\<close> is the source's \<open>c\<close>.\<close>

fun erase_fix ::
  "('k, 'v) params \<Rightarrow> nat \<Rightarrow> ('k, 'v) orbtree \<Rightarrow> idx \<Rightarrow> idx \<Rightarrow> error + ('k, 'v) orbtree" where
  "erase_fix P 0 t ch p = Inl Diverges"
| "erase_fix P (Suc fu) t ch p =
     bindE (left_of t p) (\<lambda>s0.
     bindE (if s0 = nil t \<or> s0 = ch then right_of t p else Inr s0) (\<lambda>s.
     if s = nil t \<or> s = ch then Inl Inconsistent
     else
       bindE (red_at t s) (\<lambda>sred.
       if sred then
         bindE (upd_node t p set_red) (\<lambda>t1.
         bindE (upd_node t1 s set_black) (\<lambda>t2.
         bindE (rotate_parent P t2 s) (\<lambda>t3.
         erase_fix P fu t3 ch p)))
       else
         bindE (left_of t s) (\<lambda>sl.
         bindE (right_of t s) (\<lambda>sr.
         bindE (black_at t sl) (\<lambda>slb.
         bindE (if slb then black_at t sr else Inr False) (\<lambda>both.
         if both then
           bindE (upd_node t s set_red) (\<lambda>t1.
           bindE (red_at t1 p) (\<lambda>pred.
           if pred then upd_node t1 p set_black
           else
             bindE (parent_of t1 p) (\<lambda>pp.
             if pp = root t1 then Inr t1 else erase_fix P fu t1 p pp)))
         else
           bindE (right_of t p) (\<lambda>pr.
           bindE (if s = pr then black_at t sr else Inr False) (\<lambda>c1.
           if c1 then
             bindE (upd_node t s set_red) (\<lambda>t1.
             bindE (left_of t1 s) (\<lambda>sl1.
             bindE (upd_node t1 sl1 set_black) (\<lambda>t2.
             bindE (rotate_right P t2 s) (\<lambda>t3.
             erase_fix P fu t3 ch p))))
           else
             bindE (left_of t p) (\<lambda>pl.
             bindE (if s = pl then black_at t sl else Inr False) (\<lambda>c2.
             if c2 then
               bindE (upd_node t s set_red) (\<lambda>t1.
               bindE (right_of t1 s) (\<lambda>sr1.
               bindE (upd_node t1 sr1 set_black) (\<lambda>t2.
               bindE (rotate_left P t2 s) (\<lambda>t3.
               erase_fix P fu t3 ch p))))
             else
               bindE (red_at t p) (\<lambda>pred.
               bindE (if pred then upd_node t s set_red else Inr t) (\<lambda>t1.
               bindE (upd_node t1 p set_black) (\<lambda>t2.
               bindE (right_of t2 p) (\<lambda>pr2.
               bindE (if s = pr2
                      then bindE (right_of t2 s) (\<lambda>sr2. upd_node t2 sr2 set_black)
                      else bindE (left_of t2 s) (\<lambda>sl2. upd_node t2 sl2 set_black)) (\<lambda>t3.
               rotate_parent P t3 s))))))))))))))))"

text \<open>
  \<open>erase\<close> in its three steps: \<open>erase_cut\<close> is the text up to the end of the
  \<open>if(get_node(del).is_black())\<close> block (it yields the locals \<open>x\<close> and \<open>del\<close>),
  \<open>erase_move\<close> is the block \<open>if(del != n)\<close>, and \<open>erase\<close> ends with \<open>free_node\<close>
  and the size counter.
\<close>

definition erase_cut ::
  "('k, 'v) params \<Rightarrow> ('k, 'v) orbtree \<Rightarrow> idx \<Rightarrow> error + ((idx \<times> idx) \<times> ('k, 'v) orbtree)" where
  "erase_cut P t n =
     bindE (next_node t n) (\<lambda>x.
     bindE (left_of t n) (\<lambda>nl.
     bindE (right_of t n) (\<lambda>nr.
     let del = (if nl \<noteq> nil t \<and> nr \<noteq> nil t then x else n)
     in bindE (left_of t del) (\<lambda>c0.
        bindE (if c0 = nil t then right_of t del else Inr c0) (\<lambda>ch.
        bindE (parent_of t del) (\<lambda>p.
        bindE (updE_node t ch (set_parent p)) (\<lambda>t1.
        bindE (left_of t1 p) (\<lambda>pl.
        bindE (if pl = del then upd_node t1 p (set_left ch) else upd_node t1 p (set_right ch)) (\<lambda>t2.
        bindE (get_node_grvalue P t2 del) (\<lambda>x2.
        bindE (subtract_up (fuel t2) t2 x2 p) (\<lambda>t3.
        bindE (black_at t3 del) (\<lambda>delb.
        bindE (if delb then
                 (if ch \<noteq> nil t3 then upd_node t3 ch set_black
                  else erase_fix P (3 * fuel t3) t3 ch p)
               else Inr t3) (\<lambda>t4.
        Inr ((x, del), t4))))))))))))))"

definition erase_move ::
  "('k, 'v) params \<Rightarrow> ('k, 'v) orbtree \<Rightarrow> idx \<Rightarrow> idx \<Rightarrow> error + ('k, 'v) orbtree" where
  "erase_move P t4 n x =
     bindE (left_of t4 n) (\<lambda>l4.
     bindE (upd_node t4 x (set_left l4)) (\<lambda>u1.
     bindE (right_of u1 n) (\<lambda>r4.
     bindE (upd_node u1 x (set_right r4)) (\<lambda>u2.
     bindE (parent_of u2 n) (\<lambda>p4.
     bindE (updE_node u2 x (set_parent p4)) (\<lambda>u3.
     bindE (black_at u3 n) (\<lambda>nb.
     bindE (if nb then upd_node u3 x set_black else upd_node u3 x set_red) (\<lambda>u4.
     bindE (parent_of u4 n) (\<lambda>np.
     bindE (left_of u4 np) (\<lambda>npl.
     bindE (if npl = n then upd_node u4 np (set_left x)
            else bindE (right_of u4 np) (\<lambda>npr.
                 if npr = n then upd_node u4 np (set_right x)
                 else Inl Inconsistent)) (\<lambda>u5.
     bindE (left_of u5 x) (\<lambda>xl.
     bindE (if xl \<noteq> nil u5 then updE_node u5 xl (set_parent x) else Inr u5) (\<lambda>u6.
     bindE (right_of u6 x) (\<lambda>xr.
     bindE (if xr \<noteq> nil u6 then updE_node u6 xr (set_parent x) else Inr u6) (\<lambda>u7.
     update_sum_r P (fuel u7) u7 x)))))))))))))))"

definition erase ::
  "('k, 'v) params \<Rightarrow> ('k, 'v) orbtree \<Rightarrow> idx \<Rightarrow> error + (idx \<times> ('k, 'v) orbtree)" where
  "erase P t n =
     bindE (erase_cut P t n) (\<lambda>((x, del), t4).
     bindE (if del \<noteq> n then erase_move P t4 n x else Inr t4) (\<lambda>t5.
     bindE (free_node t5 n) (\<lambda>t6.
     if size1 t6 = 0 then Inl SizeZero
     else Inr (x, t6\<lparr>size1 := size1 t6 - 1\<rparr>))))"

subsection \<open>Partial sums\<close>

fun sum_up ::
  "('k, 'v) params \<Rightarrow> nat \<Rightarrow> ('k, 'v) orbtree \<Rightarrow> idx \<Rightarrow> idx \<Rightarrow> 32 word list \<Rightarrow>
     error + 32 word list" where
  "sum_up P 0 t x p res = Inl Diverges"
| "sum_up P (Suc fu) t x p res =
     (if p = root t then Inr res
      else
        bindE (right_of t p) (\<lambda>pr.
        bindE (if x = pr then
                 bindE (left_of t p) (\<lambda>l.
                 bindE (if l \<noteq> nil t then bindE (get_node_sum t l) (\<lambda>tmp. NVAdd res tmp)
                        else Inr res) (\<lambda>res1.
                 bindE (get_node_grvalue P t p) (\<lambda>tmp. NVAdd res1 tmp)))
               else Inr res) (\<lambda>res2.
        bindE (parent_of t p) (\<lambda>pp. sum_up P fu t p pp res2))))"

definition get_sum_fv_node ::
  "('k, 'v) params \<Rightarrow> ('k, 'v) orbtree \<Rightarrow> idx \<Rightarrow> error + 32 word list" where
  "get_sum_fv_node P t x =
     (let res = replicate (nv_per_node t) 0
      in if x = Invalid \<or> x = nil t \<or> x = root t then Inr res
         else
           bindE (left_of t x) (\<lambda>l.
           bindE (if l \<noteq> nil t then bindE (get_node_sum t l) (\<lambda>tmp. NVAdd res tmp)
                  else Inr res) (\<lambda>res1.
           bindE (parent_of t x) (\<lambda>p.
           sum_up P (fuel t) t x p res1))))"

definition get_norm_fv :: "('k, 'v) orbtree \<Rightarrow> error + 32 word list" where
  "get_norm_fv t =
     (if root t \<noteq> Invalid then
        bindE (right_of t (root t)) (\<lambda>n.
        if n \<noteq> Invalid \<and> n \<noteq> nil t then get_node_sum t n
        else Inr (replicate (nv_per_node t) 0))
      else Inr (replicate (nv_per_node t) 0))"

text \<open>
  The public \<open>orbtree::get_sum_node(it, res)\<close> and \<open>orbtree::get_sum(k, res)\<close>;
  \<open>cend()\<close> is the iterator at \<open>nil\<close>.  Both calls write to the same \<open>res\<close>.
\<close>

definition get_sum_node ::
  "('k, 'v) params \<Rightarrow> ('k, 'v) orbtree \<Rightarrow> idx \<Rightarrow> error + 32 word list" where
  "get_sum_node P t it =
     bindE (if it = nil t then get_norm_fv t else Inr []) (\<lambda>res0.
     get_sum_fv_node P t it)"

definition get_sum ::
  "('k, 'v) params \<Rightarrow> ('k, 'v) orbtree \<Rightarrow> 'k \<Rightarrow> error + 32 word list" where
  "get_sum P t k = bindE (lower_bound P t k) (\<lambda>it. get_sum_node P t it)"

section \<open>Reachable allocator states, drivers and concrete stores\<close>

text \<open>
  The states of the allocator that its interface can produce from the constructor:
  \<open>new_node\<close>, \<open>free_node\<close>, \<open>clear_tree\<close>, \<open>shrink_to_fit\<close>, and the writes that
  the tree makes through \<open>get_node\<close> and \<open>set_node_sum\<close>.
\<close>

inductive alloc_reach :: "('k, 'v) orbtree \<Rightarrow> bool" where
  init: "alloc_init nr e0 = Inr t \<Longrightarrow> alloc_reach t"
| new: "alloc_reach t \<Longrightarrow> new_node t e = Inr (n, t') \<Longrightarrow> alloc_reach t'"
| free: "alloc_reach t \<Longrightarrow> free_node t n = Inr t' \<Longrightarrow> alloc_reach t'"
| clear: "alloc_reach t \<Longrightarrow> clear_tree e0 t = Inr t' \<Longrightarrow> alloc_reach t'"
| shrink: "alloc_reach t \<Longrightarrow> shrink_to_fit t = Inr t' \<Longrightarrow> alloc_reach t'"
| put: "alloc_reach t \<Longrightarrow> put_node t x nd = Inr t' \<Longrightarrow> alloc_reach t'"
| sum: "alloc_reach t \<Longrightarrow> set_node_sum t x s = Inr t' \<Longrightarrow> alloc_reach t'"

text \<open>\<open>new_nodes k\<close> calls \<open>new_node\<close> \<open>k\<close> times in a row.\<close>

fun new_nodes :: "nat \<Rightarrow> ('k, 'v) orbtree \<Rightarrow> 'k \<times> 'v \<Rightarrow> error + ('k, 'v) orbtree" where
  "new_nodes 0 t e = Inr t"
| "new_nodes (Suc k) t e = bindE (new_node t e) (\<lambda>(n, t1). new_nodes k t1 e)"

text \<open>\<open>sfits\<close>: the integer \<open>k\<close> is a value of the signed type of the width of \<open>'a\<close>.\<close>

definition sfits :: "'a::len itself \<Rightarrow> int \<Rightarrow> bool" where
  "sfits T k = (- (2 ^ (LENGTH('a) - 1)) \<le> k \<and> k < 2 ^ (LENGTH('a) - 1))"

text \<open>
  Two instances of the tree: \<open>rank_set\<close> is a set of numbers with the weight \<open>1\<close>
  (\<open>rankset\<close> with \<open>RankFunc\<close>), \<open>weight_is_key m\<close> has 32-bit keys with \<open>w(k) = k\<close>,
  as a multiset when \<open>m\<close> holds and as a set otherwise.
\<close>

definition rank_set :: "(nat, unit) params" where
  "rank_set = \<lparr>cmp = (<), nvf = (\<lambda>e i. 1), multi = False, kv_default = (0, ())\<rparr>"

definition weight_is_key :: "bool \<Rightarrow> (32 word, unit) params" where
  "weight_is_key m = \<lparr>cmp = (<), nvf = (\<lambda>e i. fst e), multi = m, kv_default = (0, ())\<rparr>"

definition insert_twice ::
  "('k, unit) params \<Rightarrow> 'k \<Rightarrow> error + ((idx \<times> bool) \<times> ('k, unit) orbtree)" where
  "insert_twice P k =
     bindE (orbtree_init P 1) (\<lambda>t0.
     bindE (insert_value P t0 (k, ())) (\<lambda>(r1, t1).
     insert_value P t1 (k, ())))"



text \<open>
  The stores that \<open>rank_set\<close> goes through: \<open>alloc0\<close> is the allocator after its
  constructor, \<open>S0\<close> is the empty tree, \<open>S1\<close> holds the key
  1, \<open>S13\<close> the keys 1 and 3, \<open>S133\<close> the key 3 twice, \<open>S123\<close> the keys 1, 2 and 3,
  \<open>S23\<close> is \<open>S123\<close> after the key 1 (slot 2) was erased, and \<open>S235\<close> is \<open>S23\<close> after
  the key 5 was inserted.
\<close>

definition alloc0 :: "(nat, unit) orbtree" where
  "alloc0 = \<lparr>nodes =
        [\<lparr>kv = (0, ()), parent = 2147483647, left = 2147483647, right = 2147483647\<rparr>,
         \<lparr>kv = (0, ()), parent = 2147483647, left = 2147483647, right = 2147483647\<rparr>],
        nvarray = [0, 0], nv_per_node = 1, n_del = 0,
        deleted_nodes_head = 2147483647, root = 0, nil = 1, size1 = 0\<rparr>"

definition S0 :: "(nat, unit) orbtree" where
  "S0 = \<lparr>nodes =
        [\<lparr>kv = (0, ()), parent = 1, left = 1, right = 1\<rparr>,
         \<lparr>kv = (0, ()), parent = 1, left = 1, right = 1\<rparr>],
        nvarray = [0, 0], nv_per_node = 1, n_del = 0,
        deleted_nodes_head = 2147483647, root = 0, nil = 1, size1 = 0\<rparr>"

definition S1 :: "(nat, unit) orbtree" where
  "S1 = \<lparr>nodes =
        [\<lparr>kv = (0, ()), parent = 1, left = 1, right = 2\<rparr>,
         \<lparr>kv = (0, ()), parent = 1, left = 1, right = 1\<rparr>,
         \<lparr>kv = (1, ()), parent = 2147483648, left = 1, right = 1\<rparr>],
        nvarray = [0, 0, 1], nv_per_node = 1, n_del = 0,
        deleted_nodes_head = 2147483647, root = 0, nil = 1, size1 = 1\<rparr>"



definition S12 :: "(nat, unit) orbtree" where
  "S12 = \<lparr>nodes =
        [\<lparr>kv = (0, ()), parent = 1, left = 1, right = 2\<rparr>,
         \<lparr>kv = (0, ()), parent = 1, left = 1, right = 1\<rparr>,
         \<lparr>kv = (1, ()), parent = 0, left = 1, right = 3\<rparr>,
         \<lparr>kv = (2, ()), parent = 2147483650, left = 1, right = 1\<rparr>],
        nvarray = [0, 0, 2, 1], nv_per_node = 1, n_del = 0,
        deleted_nodes_head = 2147483647, root = 0, nil = 1, size1 = 2\<rparr>"

definition S123 :: "(nat, unit) orbtree" where
  "S123 = \<lparr>nodes =
        [\<lparr>kv = (0, ()), parent = 1, left = 1, right = 3\<rparr>,
         \<lparr>kv = (0, ()), parent = 1, left = 1, right = 1\<rparr>,
         \<lparr>kv = (1, ()), parent = 2147483651, left = 1, right = 1\<rparr>,
         \<lparr>kv = (2, ()), parent = 0, left = 2, right = 4\<rparr>,
         \<lparr>kv = (3, ()), parent = 2147483651, left = 1, right = 1\<rparr>],
        nvarray = [0, 0, 1, 3, 1], nv_per_node = 1, n_del = 0,
        deleted_nodes_head = 2147483647, root = 0, nil = 1, size1 = 3\<rparr>"

definition S23 :: "(nat, unit) orbtree" where
  "S23 = \<lparr>nodes =
        [\<lparr>kv = (0, ()), parent = 1, left = 1, right = 3\<rparr>,
         \<lparr>kv = (0, ()), parent = 3, left = 1, right = 1\<rparr>,
         \<lparr>kv = (1, ()), parent = 4294967295, left = 2147483647, right = 2147483647\<rparr>,
         \<lparr>kv = (2, ()), parent = 0, left = 1, right = 4\<rparr>,
         \<lparr>kv = (3, ()), parent = 2147483651, left = 1, right = 1\<rparr>],
        nvarray = [0, 0, 1, 2, 1], nv_per_node = 1, n_del = 1,
        deleted_nodes_head = 2, root = 0, nil = 1, size1 = 2\<rparr>"


section \<open>Properties\<close>









lemma NVAdd_step_unsigned:
  fixes x y :: "'a::len word"
  shows "(y > 0 \<and> (- 1) - y < x \<or> \<not> y > 0 \<and> 0 - y > x) \<longleftrightarrow> 2 ^ LENGTH('a) \<le> unat x + unat y"
proof -
  define N :: nat where "N = 2 ^ LENGTH('a)"
  have m: "unat (- 1 - y) = N - 1 - unat y"
    by (simp add: unat_sub unsigned_minus_1_eq_mask mask_eq_exp_minus_1 N_def)
  have yb: "unat y < N" unfolding N_def by (rule unsigned_less)
  have xb: "unat x < N" unfolding N_def by (rule unsigned_less)
  show ?thesis
  proof (cases "y = 0")
    case True
    then show ?thesis using xb by (simp add: not_le N_def)
  next
    case False
    then have p: "0 < y" by (simp add: word_greater_zero_iff)
    then have "0 < unat y" by (simp add: word_less_nat_alt)
    then have "(N - 1 - unat y < unat x) = (N \<le> unat x + unat y)" using yb xb by arith
    then show ?thesis using p m by (simp add: word_less_nat_alt N_def)
  qed
qed

lemma NVSubtract_step_unsigned:
  fixes x y :: "'a::len word"
  shows "(y > 0 \<and> 0 + y > x \<or> \<not> y > 0 \<and> (- 1) + y < x) \<longleftrightarrow> unat x < unat y"
proof (cases "y = 0")
  case True
  have "x \<le> - 1" by simp
  then show ?thesis using True by (simp add: not_less)
next
  case False
  then have "0 < y" by (simp add: word_greater_zero_iff)
  then show ?thesis by (auto simp: word_less_nat_alt)
qed

lemma smin_sint: "sint (smin :: 'a::len word) = - (2 ^ (LENGTH('a) - 1))"
  unfolding smin_def sint_sbintrunc'
  by (rule signed_take_bit_int_eq_self) simp_all

lemma smax_sint: "sint (smax :: 'a::len word) = 2 ^ (LENGTH('a) - 1) - 1"
  unfolding smax_def sint_sbintrunc'
  by (rule signed_take_bit_int_eq_self) simp_all

lemma NVAdd_step_signed:
  fixes x y :: "'a::len word"
  shows "(word_sless 0 y \<and> word_sless (smax - y) x \<or> \<not> word_sless 0 y \<and> word_sless x (smin - y))
     \<longleftrightarrow> \<not> (- (2 ^ (LENGTH('a) - 1)) \<le> sint x + sint y \<and> sint x + sint y < 2 ^ (LENGTH('a) - 1))"
proof -
  define H :: int where "H = 2 ^ (LENGTH('a) - 1)"
  have xr: "- H \<le> sint x" "sint x < H" unfolding H_def by (rule sint_ge, rule sint_lt)
  have yr: "- H \<le> sint y" "sint y < H" unfolding H_def by (rule sint_ge, rule sint_lt)
  have Heq: "(2::int) ^ (LENGTH('a) - Suc 0) = H" by (simp add: H_def)
  have st: "signed_take_bit (LENGTH('a) - 1) k = k" if "- H \<le> k" "k < H" for k
    using that unfolding H_def by (rule signed_take_bit_int_eq_self)
  show ?thesis
  proof (cases "0 < sint y")
    case True
    have "sint (smax - y) = signed_take_bit (LENGTH('a) - 1) (H - 1 - sint y)"
      by (simp add: sint_word_diff smax_sint H_def)
    also have "\<dots> = H - 1 - sint y"
      using True yr by (intro st) simp_all
    finally show ?thesis using True xr yr by (auto simp: word_sless_alt Heq)
  next
    case False
    have "sint (smin - y) = signed_take_bit (LENGTH('a) - 1) (- H - sint y)"
      by (simp add: sint_word_diff smin_sint H_def)
    also have "\<dots> = - H - sint y"
      using False yr by (intro st) simp_all
    finally show ?thesis using False xr yr by (auto simp: word_sless_alt Heq)
  qed
qed

lemma NVSubtract_step_signed:
  fixes x y :: "'a::len word"
  shows "(word_sless 0 y \<and> word_sless x (smin + y) \<or> \<not> word_sless 0 y \<and> word_sless (smax + y) x)
     \<longleftrightarrow> \<not> (- (2 ^ (LENGTH('a) - 1)) \<le> sint x - sint y \<and> sint x - sint y < 2 ^ (LENGTH('a) - 1))"
proof -
  define H :: int where "H = 2 ^ (LENGTH('a) - 1)"
  have xr: "- H \<le> sint x" "sint x < H" unfolding H_def by (rule sint_ge, rule sint_lt)
  have yr: "- H \<le> sint y" "sint y < H" unfolding H_def by (rule sint_ge, rule sint_lt)
  have Heq: "(2::int) ^ (LENGTH('a) - Suc 0) = H" by (simp add: H_def)
  have st: "signed_take_bit (LENGTH('a) - 1) k = k" if "- H \<le> k" "k < H" for k
    using that unfolding H_def by (rule signed_take_bit_int_eq_self)
  show ?thesis
  proof (cases "0 < sint y")
    case True
    have "sint (smin + y) = signed_take_bit (LENGTH('a) - 1) (- H + sint y)"
      by (simp add: sint_word_add smin_sint H_def)
    also have "\<dots> = - H + sint y"
      using True yr by (intro st) simp_all
    finally show ?thesis using True xr yr by (auto simp: word_sless_alt Heq)
  next
    case False
    have "sint (smax + y) = signed_take_bit (LENGTH('a) - 1) (H - 1 + sint y)"
      by (simp add: sint_word_add smax_sint H_def)
    also have "\<dots> = H - 1 + sint y"
      using False yr by (intro st) simp_all
    finally show ?thesis using False xr yr by (auto simp: word_sless_alt Heq)
  qed
qed


lemma ex_less_Suc_conv: "(\<exists>i<Suc n. P i) \<longleftrightarrow> P 0 \<or> (\<exists>i<n. P (Suc i))"
  by (metis less_Suc_eq_0_disj)

lemma NVAdd_unsigned:
  fixes x y :: "'a::len word list"
  assumes "length x = length y"
  shows "NVAdd x y = (if \<exists>i<length x. 2 ^ LENGTH('a) \<le> unat (x ! i) + unat (y ! i)
                      then Inl Arithmetic else Inr (map2 (+) x y))"
  using assms
proof (induction x y rule: list_induct2)
  case Nil
  then show ?case by simp
next
  case (Cons a xs b ys)
  have "NVAdd (a # xs) (b # ys) =
      (if (b > 0 \<and> (- 1) - b < a \<or> \<not> b > 0 \<and> 0 - b > a) then Inl Arithmetic
       else bindE (NVAdd xs ys) (\<lambda>r. Inr ((a + b) # r)))"
    by simp
  also have "\<dots> = (if 2 ^ LENGTH('a) \<le> unat a + unat b then Inl Arithmetic
       else bindE (NVAdd xs ys) (\<lambda>r. Inr ((a + b) # r)))"
    by (simp only: NVAdd_step_unsigned)
  finally show ?case
    by (simp add: Cons.IH ex_less_Suc_conv bindE_def)
qed

lemma NVSubtract_unsigned:
  fixes x y :: "'a::len word list"
  assumes "length x = length y"
  shows "NVSubtract x y = (if \<exists>i<length x. unat (x ! i) < unat (y ! i)
                      then Inl Arithmetic else Inr (map2 (-) x y))"
  using assms
proof (induction x y rule: list_induct2)
  case Nil
  then show ?case by simp
next
  case (Cons a xs b ys)
  have "NVSubtract (a # xs) (b # ys) =
      (if (b > 0 \<and> 0 + b > a \<or> \<not> b > 0 \<and> (- 1) + b < a) then Inl Arithmetic
       else bindE (NVSubtract xs ys) (\<lambda>r. Inr ((a - b) # r)))"
    by simp
  also have "\<dots> = (if unat a < unat b then Inl Arithmetic
       else bindE (NVSubtract xs ys) (\<lambda>r. Inr ((a - b) # r)))"
    by (simp only: NVSubtract_step_unsigned)
  finally show ?case
    by (simp add: Cons.IH ex_less_Suc_conv bindE_def)
qed

lemma NVAdd_signed_eq:
  fixes x y :: "'a::len word list"
  assumes "length x = length y"
  shows "NVAdd_signed x y = (if \<exists>i<length x. \<not> sfits TYPE('a) (sint (x ! i) + sint (y ! i))
                      then Inl Arithmetic else Inr (map2 (+) x y))"
  using assms
proof (induction x y rule: list_induct2)
  case Nil
  then show ?case by simp
next
  case (Cons a xs b ys)
  have "NVAdd_signed (a # xs) (b # ys) =
      (if (word_sless 0 b \<and> word_sless (smax - b) a \<or> \<not> word_sless 0 b \<and> word_sless a (smin - b))
       then Inl Arithmetic
       else bindE (NVAdd_signed xs ys) (\<lambda>r. Inr ((a + b) # r)))"
    by simp
  also have "\<dots> = (if \<not> sfits TYPE('a) (sint a + sint b) then Inl Arithmetic
       else bindE (NVAdd_signed xs ys) (\<lambda>r. Inr ((a + b) # r)))"
    by (simp only: NVAdd_step_signed sfits_def)
  finally show ?case
    by (simp add: Cons.IH ex_less_Suc_conv bindE_def)
qed

lemma NVSubtract_signed_eq:
  fixes x y :: "'a::len word list"
  assumes "length x = length y"
  shows "NVSubtract_signed x y = (if \<exists>i<length x. \<not> sfits TYPE('a) (sint (x ! i) - sint (y ! i))
                      then Inl Arithmetic else Inr (map2 (-) x y))"
  using assms
proof (induction x y rule: list_induct2)
  case Nil
  then show ?case by simp
next
  case (Cons a xs b ys)
  have "NVSubtract_signed (a # xs) (b # ys) =
      (if (word_sless 0 b \<and> word_sless a (smin + b) \<or> \<not> word_sless 0 b \<and> word_sless (smax + b) a)
       then Inl Arithmetic
       else bindE (NVSubtract_signed xs ys) (\<lambda>r. Inr ((a - b) # r)))"
    by simp
  also have "\<dots> = (if \<not> sfits TYPE('a) (sint a - sint b) then Inl Arithmetic
       else bindE (NVSubtract_signed xs ys) (\<lambda>r. Inr ((a - b) # r)))"
    by (simp only: NVSubtract_step_signed sfits_def)
  finally show ?case
    by (simp add: Cons.IH ex_less_Suc_conv bindE_def)
qed

lemma bindE_Inr_iff: "bindE m f = Inr y \<longleftrightarrow> (\<exists>x. m = Inr x \<and> f x = Inr y)"
  by (cases m) (simp_all add: bindE_def)

lemma bindE_Inl_iff: "bindE m f = Inl e \<longleftrightarrow> m = Inl e \<or> (\<exists>x. m = Inr x \<and> f x = Inl e)"
  by (cases m) (simp_all add: bindE_def)

lemma get_node_Inr: "get_node t x = Inr n \<longleftrightarrow> unat x < length (nodes t) \<and> n = nodes t ! unat x"
  by (auto simp: get_node_def)

lemma put_node_Inr: "put_node t x n = Inr t' \<longleftrightarrow> unat x < length (nodes t) \<and> t' = t\<lparr>nodes := (nodes t)[unat x := n]\<rparr>"
  by (auto simp: put_node_def)

lemma upd_node_Inr: "upd_node t x g = Inr t' \<longleftrightarrow>
   unat x < length (nodes t) \<and> t' = t\<lparr>nodes := (nodes t)[unat x := g (nodes t ! unat x)]\<rparr>"
  by (auto simp: upd_node_def bindE_Inr_iff get_node_Inr put_node_Inr)

lemma updE_node_Inr: "updE_node t x g = Inr t' \<longleftrightarrow>
   unat x < length (nodes t) \<and> (\<exists>n1. g (nodes t ! unat x) = Inr n1 \<and> t' = t\<lparr>nodes := (nodes t)[unat x := n1]\<rparr>)"
  by (auto simp: updE_node_def bindE_Inr_iff get_node_Inr put_node_Inr)

lemma set_node_sum_nodes: "set_node_sum t x s = Inr t' \<Longrightarrow> nodes t' = nodes t"
  by (auto simp: set_node_sum_def Let_def split: if_splits)

lemma bindE_InrE: "bindE m f = Inr y \<Longrightarrow> (\<And>x. m = Inr x \<Longrightarrow> f x = Inr y \<Longrightarrow> P) \<Longrightarrow> P"
  by (cases m) (simp_all add: bindE_def)

lemma put_node_len: "put_node t x n = Inr t' \<Longrightarrow> length (nodes t') = length (nodes t)"
  by (auto simp: put_node_Inr)
lemma upd_node_len: "upd_node t x g = Inr t' \<Longrightarrow> length (nodes t') = length (nodes t)"
  by (auto simp: upd_node_Inr)
lemma updE_node_len: "updE_node t x g = Inr t' \<Longrightarrow> length (nodes t') = length (nodes t)"
  by (auto simp: updE_node_Inr)
lemma set_node_sum_len: "set_node_sum t x s = Inr t' \<Longrightarrow> length (nodes t') = length (nodes t)"
  by (simp add: set_node_sum_nodes)

lemmas len_dests = put_node_len upd_node_len updE_node_len set_node_sum_len

lemma try_get_node_length:
  "try_get_node t = Inr (r, t') \<Longrightarrow> length (nodes t') = length (nodes t)"
  unfolding try_get_node_def Let_def
  by (auto elim!: bindE_InrE dest!: len_dests split: if_splits)

lemma try_get_node_None:
  "try_get_node t = Inr (None, t') \<longleftrightarrow> deleted_nodes_head t = Invalid \<and> t' = t"
  by (auto simp: try_get_node_def Let_def bindE_Inr_iff split: if_splits)

lemma try_get_node_not_Capacity: "try_get_node t \<noteq> Inl Capacity"
  by (auto simp: try_get_node_def Let_def bindE_Inl_iff updE_node_def upd_node_def get_node_def put_node_def
      set_parent_def split: if_splits)

lemma max_nodes_val: "unat max_nodes = 2 ^ 31 - 1"
  by (simp add: max_nodes_def redbit_def)

lemma of_nat_max_nodes:
  "n \<le> 2 ^ 31 - 1 \<Longrightarrow> ((of_nat n :: idx) = max_nodes) = (n = 2 ^ 31 - 1)"
proof -
  assume "n \<le> 2 ^ 31 - 1"
  then have "n < 2 ^ LENGTH(32)" by simp
  then have "unat (of_nat n :: idx) = n" by (simp add: unat_of_nat)
  then show ?thesis using max_nodes_val by (metis unat_eq_nat_uint word_eq_iff_unsigned)
qed

lemma new_node_Capacity:
  assumes "length (nodes t) \<le> 2 ^ 31 - 1"
  shows "new_node t e = Inl Capacity \<longleftrightarrow> deleted_nodes_head t = Invalid \<and> length (nodes t) = 2 ^ 31 - 1"
proof (cases "deleted_nodes_head t = Invalid")
  case True
  then have "try_get_node t = Inr (None, t)" by (simp add: try_get_node_def)
  then show ?thesis using True assms
    by (simp add: new_node_def bindE_def Let_def of_nat_max_nodes)
next
  case False
  have "new_node t e \<noteq> Inl Capacity"
  proof
    assume a: "new_node t e = Inl Capacity"
    then consider "try_get_node t = Inl Capacity"
      | r t1 where "try_get_node t = Inr (r, t1)"
          "(case r of Some n \<Rightarrow> bindE (put_node t1 n (Node e)) (\<lambda>t2. Inr (n, t2))
             | None \<Rightarrow> let n = (of_nat (length (nodes t1)) :: idx)
                 in if n = max_nodes then Inl Capacity
                    else Inr (n, t1\<lparr>nodes := nodes t1 @ [Node e],
                              nvarray := resize (nvarray t1) (unat (n + 1) * nv_per_node t1) 0\<rparr>)) = Inl Capacity"
      by (auto simp: new_node_def bindE_Inl_iff)
    then show False
    proof cases
      case 1 then show False by (simp add: try_get_node_not_Capacity)
    next
      case 2
      with False show False
        by (cases r) (auto simp: try_get_node_None bindE_Inl_iff put_node_def split: if_splits)
    qed
  qed
  with False show ?thesis by simp
qed

lemma new_node_length:
  assumes "new_node t e = Inr (n, t')" "length (nodes t) \<le> 2 ^ 31 - 1"
  shows "length (nodes t') \<le> 2 ^ 31 - 1"
proof -
  from assms(1) obtain r t1 where r: "try_get_node t = Inr (r, t1)"
    and c: "(case r of Some n \<Rightarrow> bindE (put_node t1 n (Node e)) (\<lambda>t2. Inr (n, t2))
             | None \<Rightarrow> let n = (of_nat (length (nodes t1)) :: idx)
                 in if n = max_nodes then Inl Capacity
                    else Inr (n, t1\<lparr>nodes := nodes t1 @ [Node e],
                              nvarray := resize (nvarray t1) (unat (n + 1) * nv_per_node t1) 0\<rparr>)) = Inr (n, t')"
    by (auto simp: new_node_def bindE_Inr_iff)
  have l: "length (nodes t1) = length (nodes t)" using r by (rule try_get_node_length)
  show ?thesis
  proof (cases r)
    case None
    with c have ne: "(of_nat (length (nodes t1)) :: idx) \<noteq> max_nodes"
      and t': "length (nodes t') = Suc (length (nodes t1))"
      by (auto simp: Let_def split: if_splits)
    from ne assms(2) l have "length (nodes t1) \<noteq> 2 ^ 31 - 1" by (simp add: of_nat_max_nodes)
    with t' l assms(2) show ?thesis by simp
  next
    case (Some m)
    with c have "length (nodes t') = length (nodes t1)"
      by (auto simp: bindE_Inr_iff put_node_Inr)
    with l assms(2) show ?thesis by simp
  qed
qed

lemma free_node_length: "free_node t n = Inr t' \<Longrightarrow> length (nodes t') = length (nodes t)"
  unfolding free_node_def
  by (auto elim!: bindE_InrE dest!: len_dests split: if_splits)

lemma clear_tree_length: "clear_tree e0 t = Inr t' \<Longrightarrow> length (nodes t') = 2"
  unfolding clear_tree_def Let_def
  by (auto elim!: bindE_InrE dest!: len_dests simp: resize_def)

lemma move_node_length: "move_node t x y = Inr t' \<Longrightarrow> length (nodes t') = length (nodes t)"
  unfolding move_node_def move_nv_def
  by (auto elim!: bindE_InrE dest!: len_dests split: if_splits)

lemmas alloc_defs = redbit_def max_nodes_def deleted_indicator_def Invalid_def Node_def
  is_red_def is_black_def set_red_def set_black_def get_parent_def get_left_def get_right_def
  set_parent_def set_left_def set_right_def set_deleted_def is_deleted_def get_node_def put_node_def
  upd_node_def updE_node_def resize_def try_get_node_def new_node_def free_node_def clear_tree_def
  get_node_sum_def set_node_sum_def move_nv_def move_node_def shrink_step_def shrink_to_fit_def
  alloc_empty_def alloc_init_def bindE_def

lemmas tree_defs = left_of_def right_of_def parent_of_def red_at_def get_node_key_def get_node_grvalue_def
  create_sentinels_def orbtree_init_def clear_def fuel_def lower_bound_def first_def last_node_def
  next_node_def previous_def update_sum_def update_value_def rotate_left_def rotate_right_def rotate_parent_def
  insert_search_def get_sibling_handle_def is_left_side_def insert_helper_def insert_value_def insert_search_hint_def
  insert_hint_def black_at_def erase_cut_def erase_move_def erase_def get_sum_fv_node_def get_norm_fv_def get_sum_node_def get_sum_def

lemma init_S0: "orbtree_init rank_set 1 = Inr S0"
  by (simp add: alloc_defs tree_defs rank_set_def S0_def)

lemma ins1: "insert_value rank_set S0 (1, ()) = Inr ((2, True), S1)"
  by (simp add: alloc_defs tree_defs rank_set_def S0_def S1_def)



lemma C1a: "lower_bound rank_set S1 5 = Inr 1"
  by (simp add: alloc_defs tree_defs rank_set_def S1_def)
lemma C1b: "get_sum rank_set S1 5 = Inr [0]"
  by (simp add: alloc_defs tree_defs rank_set_def S1_def)
lemma C1c: "get_norm_fv S1 = Inr [1]"
  by (simp add: alloc_defs tree_defs rank_set_def S1_def)


lemma erase_fix_numeral:
  "erase_fix P (numeral k) t ch p = erase_fix P (Suc (pred_numeral k)) t ch p"
  by (simp add: numeral_eq_Suc)



lemma ins2: "insert_value rank_set S1 (2, ()) = Inr ((3, True), S12)"
  by (simp add: alloc_defs tree_defs rank_set_def S12_def S1_def)

lemma ins23: "insert_value rank_set S12 (3, ()) = Inr ((4, True), S123)"
  by (simp add: alloc_defs tree_defs rank_set_def S12_def S123_def)

lemma erase2: "erase rank_set S123 2 = Inr (3, S23)"
  by (simp add: alloc_defs tree_defs rank_set_def S23_def S123_def erase_fix_numeral)

lemma shrink23: "shrink_to_fit S23 = Inl OutOfBounds"
  by (simp add: alloc_defs tree_defs S23_def)


lemma shrink_step_length: "shrink_step t sz = Inr t' \<Longrightarrow> length (nodes t') = length (nodes t)"
  unfolding shrink_step_def Let_def
  by (auto elim!: bindE_InrE dest!: len_dests move_node_length split: if_splits)

lemma shrink_loop_length: "shrink_loop k t = Inr t' \<Longrightarrow> length (nodes t') \<le> length (nodes t)"
proof (induction k arbitrary: t)
  case 0
  then show ?case by simp
next
  case (Suc k)
  show ?case
  proof (cases "deleted_nodes_head t = Invalid")
    case True
    with Suc.prems show ?thesis by simp
  next
    case False
    with Suc.prems obtain t5 where
      s: "shrink_step t (of_nat (length (nodes t)) - 1) = Inr t5" and
      r: "shrink_loop k (t5\<lparr>nodes := butlast (nodes t5),
            nvarray := resize (nvarray t5) (unat ((of_nat (length (nodes t)) :: idx) - 1) * nv_per_node t5) 0,
            n_del := n_del t5 - 1\<rparr>) = Inr t'"
      by (auto simp: Let_def elim!: bindE_InrE split: if_splits)
    from Suc.IH[OF r] have "length (nodes t') \<le> length (butlast (nodes t5))" by simp
    also have "\<dots> \<le> length (nodes t5)" by simp
    also have "\<dots> = length (nodes t)" using s by (rule shrink_step_length)
    finally show ?thesis .
  qed
qed

lemma alloc_init_length: "alloc_init nr e0 = Inr t \<Longrightarrow> length (nodes t) \<le> 2 ^ 31 - 1"
proof -
  assume a: "alloc_init nr e0 = Inr t"
  have e: "length (nodes (alloc_empty nr :: ('a, 'b) orbtree)) \<le> 2 ^ 31 - 1" by (simp add: alloc_empty_def)
  from a obtain r t1 n t2 where 1: "new_node (alloc_empty nr) e0 = Inr (r, t1)"
    and 2: "new_node (t1\<lparr>root := r\<rparr>) e0 = Inr (n, t2)" and 3: "t = t2\<lparr>nil := n\<rparr>"
    unfolding alloc_init_def by (auto elim!: bindE_InrE)
  from new_node_length[OF 1 e] have "length (nodes (t1\<lparr>root := r\<rparr>)) \<le> 2 ^ 31 - 1" by simp
  from new_node_length[OF 2 this] 3 show ?thesis by simp
qed

lemma alloc_reach_length: "alloc_reach t \<Longrightarrow> length (nodes t) \<le> 2 ^ 31 - 1"
proof (induction rule: alloc_reach.induct)
  case (init nr e0 t)
  then show ?case by (rule alloc_init_length)
next
  case (new t e n t')
  then show ?case using new_node_length by blast
next
  case (free t n t')
  then show ?case by (simp add: free_node_length)
next
  case (clear t e0 t')
  then show ?case by (simp add: clear_tree_length)
next
  case (shrink t t')
  from shrink.hyps(2) have "length (nodes t') \<le> length (nodes t)"
    unfolding shrink_to_fit_def by (rule shrink_loop_length)
  with shrink.IH show ?case by simp
next
  case (put t x nd t')
  then show ?case by (simp add: put_node_len)
next
  case (sum t x s t')
  then show ?case by (simp add: set_node_sum_len)
qed

text \<open>
  Claim C8, as amended.  In every state of the compact allocator that its interface can
  reach, \<open>nodes\<close> holds at most \<open>2^31 - 1\<close> slots (two of them the sentinels, so at most
  \<open>2^31 - 3\<close> entries), and \<open>new_node\<close> raises the capacity error exactly when the free
  list is empty and \<open>nodes\<close> holds \<open>2^31 - 1\<close> slots.
\<close>

theorem compact_capacity_limit:
  "alloc_reach t \<longrightarrow>
     length (nodes t) \<le> 2 ^ 31 - 1 \<and>
     (new_node t e = Inl Capacity \<longleftrightarrow>
        deleted_nodes_head t = Invalid \<and> length (nodes t) = 2 ^ 31 - 1)"
  using alloc_reach_length new_node_Capacity by blast

lemma alloc_init_rank: "alloc_init 1 (0::nat, ()) = Inr alloc0"
  by (simp add: alloc_defs alloc0_def)

text \<open>The allocator right after its constructor is such a state, and it can allocate.\<close>

theorem compact_capacity_limit_witness:
  "alloc_reach alloc0 \<and> length (nodes alloc0) \<le> 2 ^ 31 - 1 \<and>
   new_node alloc0 (7, ()) \<noteq> Inl Capacity"
proof -
  have r: "alloc_reach alloc0"
    by (rule alloc_reach.init[of 1 "(0, ())"]) (rule alloc_init_rank)
  have l: "length (nodes alloc0) \<noteq> 2 ^ 31 - 1" by (simp add: alloc0_def)
  from compact_capacity_limit[of alloc0 "(7, ())"] r l
  show ?thesis by blast
qed

lemma new_nodes_full:
  "deleted_nodes_head t = Invalid \<Longrightarrow> length (nodes t) + k = 2 ^ 31 - 1 \<Longrightarrow>
   new_nodes (Suc k) t e = Inl Capacity"
proof (induction k arbitrary: t)
  case 0
  then have "new_node t e = Inl Capacity" by (simp add: new_node_Capacity)
  then show ?case by (simp add: bindE_def)
next
  case (Suc k)
  from Suc.prems have l: "length (nodes t) \<le> 2 ^ 31 - 1" "length (nodes t) \<noteq> 2 ^ 31 - 1" by simp_all
  have tg: "try_get_node t = Inr (None, t)" using Suc.prems(1) by (simp add: try_get_node_def)
  define t1 where "t1 = t\<lparr>nodes := nodes t @ [Node e],
       nvarray := resize (nvarray t) (unat ((of_nat (length (nodes t)) :: idx) + 1) * nv_per_node t) 0\<rparr>"
  have nn: "new_node t e = Inr (of_nat (length (nodes t)), t1)"
    using tg l by (simp add: new_node_def bindE_def Let_def of_nat_max_nodes t1_def)
  have "new_nodes (Suc k) t1 e = Inl Capacity"
    by (rule Suc.IH) (use Suc.prems in \<open>simp_all add: t1_def\<close>)
  then show ?case using nn by (simp add: bindE_def)
qed

text \<open>
  Claim C8 as stated fails: \<open>2^31\<close> allocations in a row from the empty allocator (the two
  sentinels and \<open>2^31 - 2\<close> entries) end in the capacity error.
\<close>

theorem compact_capacity_limit_counterexample:
  "new_nodes (2 ^ 31) (alloc_empty 1) (0::nat, ()) = Inl Capacity"
proof -
  have "new_nodes (Suc (2 ^ 31 - 1)) (alloc_empty 1) (0::nat, ()) = Inl Capacity"
    by (rule new_nodes_full) (simp_all add: alloc_empty_def)
  then show ?thesis by simp
qed










text \<open>
  Claim C1 at the tree that holds the key 1 with weight 1: \<open>lower_bound 5\<close> is \<open>nil\<close>, the
  total sum is 1, and both \<open>get_sum 5\<close> and \<open>get_sum_node\<close> at the end handle return 0:
  \<open>get_sum_node\<close> calls \<open>get_norm_fv\<close> for the end handle and then goes on to
  \<open>get_sum_fv_node\<close>, which clears the result.
\<close>

theorem get_sum_past_the_end:
  "orbtree_init rank_set 1 = Inr S0 \<and>
   insert_value rank_set S0 (1, ()) = Inr ((2, True), S1) \<and>
   lower_bound rank_set S1 5 = Inr (nil S1) \<and>
   get_sum rank_set S1 5 = Inr [0] \<and>
   get_sum_node rank_set S1 (nil S1) = Inr [0] \<and>
   get_norm_fv S1 = Inr [1]"
proof -
  have "nil S1 = 1" by (simp add: S1_def)
  moreover have "get_sum_node rank_set S1 1 = Inr [0]"
    by (simp add: alloc_defs tree_defs rank_set_def S1_def)
  ultimately show ?thesis using init_S0 ins1 C1a C1b C1c by simp
qed

text \<open>
  Claim C4 at the tree with the keys 1, 2, 3 after \<open>erase\<close> of the key 1: the free list
  holds slot 2 only and the last slot is live, so \<open>shrink_to_fit\<close> takes the head off the
  list and then writes to \<open>nodes[deleted_nodes_head]\<close> with the head already \<open>Invalid\<close>,
  an index outside the vector.
\<close>

theorem shrink_to_fit_after_erase:
  "orbtree_init rank_set 1 = Inr S0 \<and>
   insert_value rank_set S0 (1, ()) = Inr ((2, True), S1) \<and>
   insert_value rank_set S1 (2, ()) = Inr ((3, True), S12) \<and>
   insert_value rank_set S12 (3, ()) = Inr ((4, True), S123) \<and>
   erase rank_set S123 2 = Inr (3, S23) \<and>
   shrink_to_fit S23 = Inl OutOfBounds"
  using init_S0 ins1 ins2 ins23 erase2 shrink23 by simp


text \<open>
  Claim C7 at an allocator with two weights per node: after the constructor \<open>nvarray\<close> has
  \<open>2 * 2\<close> cells for the two slots of \<open>nodes\<close>; after \<open>clear_tree\<close>, which resizes
  \<open>nvarray\<close> to 2, it has 2 cells for the same two slots.
\<close>

theorem clear_tree_sums_length:
  "bindE (alloc_init 2 (0::nat, ())) (\<lambda>t.
     bindE (clear_tree (0, ()) t) (\<lambda>t'.
       Inr ((length (nodes t), nv_per_node t, length (nvarray t)),
            (length (nodes t'), nv_per_node t', length (nvarray t')))))
   = Inr ((2, 2, 4), (2, 2, 2))"
  by (simp add: alloc_defs)

lemma insert_twice_multi: "insert_twice (weight_is_key True) 2147483648 = Inl Arithmetic"
  by (simp add: insert_twice_def weight_is_key_def alloc_defs tree_defs)

text \<open>
  Claim C5 as stated fails in a container with unique keys, weights \<open>uint32_t\<close> and
  \<open>w(k) = k\<close>: the second insert of the key \<open>2^31\<close> finds the key, returns its handle and
  \<open>False\<close>, and adds nothing.
\<close>

theorem insert_twice_unique_counterexample:
  "bindE (insert_twice (weight_is_key False) 2147483648) (\<lambda>(r, t). Inr r) = Inr (2, False)"
  by (simp add: insert_twice_def weight_is_key_def alloc_defs tree_defs)

text \<open>
  Claim C5, as amended.  For arrays of equal length, \<open>NVAdd\<close> and \<open>NVSubtract\<close> raise
  the arithmetic error exactly when some component of the exact sum or difference is not a
  value of the weight type, unsigned or signed, and return the componentwise result
  otherwise; and in a multi container with weights \<open>uint32_t\<close> and \<open>w(k) = k\<close> the second
  insert of the key \<open>2^31\<close> raises the arithmetic error.
\<close>

theorem weight_arithmetic_checked:
  fixes x y :: "'a::len word list"
  shows "(length x = length y \<longrightarrow>
      NVAdd x y = (if \<exists>i<length x. 2 ^ LENGTH('a) \<le> unat (x ! i) + unat (y ! i)
                   then Inl Arithmetic else Inr (map2 (+) x y)) \<and>
      NVSubtract x y = (if \<exists>i<length x. unat (x ! i) < unat (y ! i)
                   then Inl Arithmetic else Inr (map2 (-) x y)) \<and>
      NVAdd_signed x y = (if \<exists>i<length x. \<not> sfits TYPE('a) (sint (x ! i) + sint (y ! i))
                   then Inl Arithmetic else Inr (map2 (+) x y)) \<and>
      NVSubtract_signed x y = (if \<exists>i<length x. \<not> sfits TYPE('a) (sint (x ! i) - sint (y ! i))
                   then Inl Arithmetic else Inr (map2 (-) x y)))
   \<and> insert_twice (weight_is_key True) 2147483648 = Inl Arithmetic"
  using NVAdd_unsigned[of x y] NVSubtract_unsigned[of x y] NVAdd_signed_eq[of x y]
    NVSubtract_signed_eq[of x y] insert_twice_multi
  by blast

text \<open>An instance with two components.\<close>

theorem weight_arithmetic_checked_witness:
  "length [2147483648 :: 32 word, 5] = length [2147483648 :: 32 word, 7] \<and>
   NVAdd [2147483648 :: 32 word, 5] [2147483648, 7] = Inl Arithmetic \<and>
   NVSubtract [2147483648 :: 32 word, 5] [2147483648, 7] = Inl Arithmetic \<and>
   NVAdd_signed [2147483648 :: 32 word, 5] [2147483648, 7] = Inl Arithmetic"
proof -
  define x0 :: "32 word list" where "x0 = [2147483648, 5]"
  define y0 :: "32 word list" where "y0 = [2147483648, 7]"
  have l: "length x0 = length y0" by (simp add: x0_def y0_def)
  have e1: "\<exists>i<length x0. 2 ^ LENGTH(32) \<le> unat (x0 ! i) + unat (y0 ! i)"
    by (rule exI[of _ 0]) (simp add: x0_def y0_def)
  have e2: "\<exists>i<length x0. unat (x0 ! i) < unat (y0 ! i)"
    by (rule exI[of _ 1]) (simp add: x0_def y0_def)
  have e3: "\<exists>i<length x0. \<not> sfits TYPE(32) (sint (x0 ! i) + sint (y0 ! i))"
    by (rule exI[of _ 0]) (simp add: x0_def y0_def sfits_def)
  from weight_arithmetic_checked[of x0 y0] l have
    A: "NVAdd x0 y0 = (if \<exists>i<length x0. 2 ^ LENGTH(32) \<le> unat (x0 ! i) + unat (y0 ! i)
                   then Inl Arithmetic else Inr (map2 (+) x0 y0))" and
    B: "NVSubtract x0 y0 = (if \<exists>i<length x0. unat (x0 ! i) < unat (y0 ! i)
                   then Inl Arithmetic else Inr (map2 (-) x0 y0))" and
    C: "NVAdd_signed x0 y0 = (if \<exists>i<length x0. \<not> sfits TYPE(32) (sint (x0 ! i) + sint (y0 ! i))
                   then Inl Arithmetic else Inr (map2 (+) x0 y0))"
    by blast+
  have "NVAdd x0 y0 = Inl Arithmetic" by (subst A) (simp only: e1 if_True)
  moreover have "NVSubtract x0 y0 = Inl Arithmetic" by (subst B) (simp only: e2 if_True)
  moreover have "NVAdd_signed x0 y0 = Inl Arithmetic" by (subst C) (simp only: e3 if_True)
  ultimately show ?thesis using l unfolding x0_def y0_def by blast
qed



end
